theory Spec2Isabelle
  imports Complex_Main "HOL-Library.Multiset"
begin

section \<open>Domain model (core/domain)\<close>

text \<open>
  The TypeScript interfaces of \<^verbatim>\<open>biomarker.model\<close>, \<^verbatim>\<open>card.model\<close> and
  \<^verbatim>\<open>game.model\<close>. A JavaScript \<^verbatim>\<open>number\<close> that carries a physiological reading
  or a delta is a \<^typ>\<open>real\<close> (no rounding, no NaN, no infinities); counters
  (\<^verbatim>\<open>turnCount\<close>, \<^verbatim>\<open>score\<close>, \<^verbatim>\<open>cost\<close>) are \<^typ>\<open>int\<close>. A \<^verbatim>\<open>Date\<close> is a
  number of milliseconds. Field names that clash with another record or with a
  HOL constant carry a prefix.
\<close>

datatype HomeostaticSystem = GLUCOSE | PH | TEMPERATURE

datatype Trend = stable | increasing | decreasing

type_synonym Date = nat

record Biomarker =
  system :: HomeostaticSystem
  name :: string
  currentValue :: real
  normalRange :: "real \<times> real"
  criticalRange :: "real \<times> real"
  unit :: string
  isCritical :: bool
  trend :: Trend
  lastUpdate :: Date

record HomeostaticState =
  glucose :: Biomarker
  ph :: Biomarker
  temperature :: Biomarker

record BiomarkerHistory =
  timestamp :: Date
  history_system :: HomeostaticSystem
  oldValue :: real
  newValue :: real
  change :: real
  reason :: string

datatype CardType = ACTION | EVENT

datatype CardRarity = COMMON | RARE | EPIC | LEGENDARY

datatype EffectType = INSTANT | CONTINUOUS | CONDITIONAL

record CardEffect =
  targetSystem :: string
  effect_value :: real
  duration :: "real option"
  effect_type :: EffectType
  condition :: "string option"

record Card =
  card_id :: string
  card_name :: string
  card_type :: CardType
  description :: string
  imageUrl :: string
  effects :: "CardEffect list"
  cost :: int
  rarity :: CardRarity
  flavorText :: "string option"
  educationalNote :: "string option"

datatype GameStatus = LOBBY | IN_PROGRESS | VICTORY | DEFEAT | PAUSED

datatype EventType = RANDOM | SCHEDULED | TRIGGERED

datatype Severity = mild | moderate | severe | critical

record EventEffect =
  event_system :: string
  event_value :: real
  event_duration :: real

record GameEvent =
  event_id :: string
  title :: string
  event_description :: string
  event_type :: EventType
  event_effects :: "EventEffect list"
  severity :: Severity
  icon :: "string option"

datatype Difficulty = easy | medium | hard

text \<open>
  \<^verbatim>\<open>GameSession\<close>. The field \<^verbatim>\<open>currentState\<close> is a type parameter: in the
  functional reading of the engine it holds the \<^typ>\<open>HomeostaticState\<close> itself, in
  the object store of the last section it holds the address of the state object.
\<close>

record 'st GameSession =
  session_id :: string
  playerId :: string
  status :: GameStatus
  currentState :: 'st
  hand :: "Card list"
  deck :: "Card list"
  discardPile :: "Card list"
  currentEvent :: "GameEvent option"
  score :: int
  turnCount :: int
  startTime :: Date
  lastSave :: Date
  difficulty :: Difficulty

section \<open>The turn resolver (features/gameplay/GameEngine.ts)\<close>

text \<open>
  The only error the resolver can raise: the \<^verbatim>\<open>TypeError\<close> of reading
  \<^verbatim>\<open>.currentValue\<close> (or destructuring \<^verbatim>\<open>.normalRange\<close>) of a state entry
  that is no biomarker, when \<^verbatim>\<open>effect.targetSystem\<close> is not one of the three keys.
\<close>

datatype error = TypeError

text \<open>
  \<^verbatim>\<open>effect.targetSystem as keyof typeof HomeostaticSystem\<close>: the string is used
  as a property key of the state object, whose keys are the enum's values.
\<close>

definition systemKey :: "string \<Rightarrow> HomeostaticSystem option" where
  "systemKey k =
     (if k = ''glucose'' then Some GLUCOSE
      else if k = ''ph'' then Some PH
      else if k = ''temperature'' then Some TEMPERATURE
      else None)"

fun biomarkerOf :: "HomeostaticState \<Rightarrow> HomeostaticSystem \<Rightarrow> Biomarker" where
  "biomarkerOf st GLUCOSE = glucose st"
| "biomarkerOf st PH = ph st"
| "biomarkerOf st TEMPERATURE = temperature st"

fun setBiomarker :: "HomeostaticState \<Rightarrow> HomeostaticSystem \<Rightarrow> Biomarker \<Rightarrow> HomeostaticState" where
  "setBiomarker st GLUCOSE b = st\<lparr>glucose := b\<rparr>"
| "setBiomarker st PH b = st\<lparr>ph := b\<rparr>"
| "setBiomarker st TEMPERATURE b = st\<lparr>temperature := b\<rparr>"

text \<open>\<^verbatim>\<open>Object.values(session.currentState)\<close>, in the order of the interface.\<close>

definition systems :: "HomeostaticState \<Rightarrow> Biomarker list" where
  "systems st = [glucose st, ph st, temperature st]"

text \<open>The private method \<^verbatim>\<open>isCritical(biomarker, value)\<close>.\<close>

definition isCriticalAt :: "Biomarker \<Rightarrow> real \<Rightarrow> bool" where
  "isCriticalAt biomarker v =
     (case normalRange biomarker of (minNormal, maxNormal) \<Rightarrow>
      case criticalRange biomarker of (minCritical, maxCritical) \<Rightarrow>
        v < minCritical \<or> v > maxCritical)"

definition calculateTrend :: "real \<Rightarrow> real \<Rightarrow> Trend" where
  "calculateTrend oldV newV =
     (let diff = newV - oldV in
      if \<bar>diff\<bar> < 1 / 10 then stable
      else if diff > 0 then increasing else decreasing)"

text \<open>
  One pass of the body of \<^verbatim>\<open>playedCard.effects.forEach\<close>. The clock is read
  twice (\<^verbatim>\<open>lastUpdate\<close>, then the history's \<^verbatim>\<open>timestamp\<close>): \<open>clock\<close> gives
  the readings of \<^verbatim>\<open>new Date()\<close> during the call by their position, \<open>i\<close> is
  the index of the effect.
\<close>

definition applyEffect ::
  "(nat \<Rightarrow> Date) \<Rightarrow> nat \<Rightarrow> Card \<Rightarrow> HomeostaticState \<Rightarrow> CardEffect
     \<Rightarrow> error + (HomeostaticState \<times> BiomarkerHistory)" where
  "applyEffect clock i playedCard st effect =
     (case systemKey (targetSystem effect) of
        None \<Rightarrow> Inl TypeError
      | Some key \<Rightarrow>
          let oldV = currentValue (biomarkerOf st key);
              newV = oldV + effect_value effect;
              st' = setBiomarker st key
                ((biomarkerOf st key)
                   \<lparr>currentValue := newV,
                    isCritical := isCriticalAt (biomarkerOf st key) newV,
                    trend := calculateTrend oldV newV,
                    lastUpdate := clock (2 * i)\<rparr>)
          in Inr (st',
                  \<lparr>timestamp = clock (2 * i + 1),
                   history_system = key,
                   oldValue = oldV,
                   newValue = newV,
                   change = effect_value effect,
                   reason = ''Card played: '' @ card_name playedCard\<rparr>))"

text \<open>The \<^verbatim>\<open>forEach\<close> loop: state and history are threaded, an exception ends it.\<close>

fun applyEffects ::
  "(nat \<Rightarrow> Date) \<Rightarrow> nat \<Rightarrow> Card \<Rightarrow> HomeostaticState \<Rightarrow> BiomarkerHistory list
     \<Rightarrow> CardEffect list \<Rightarrow> error + (HomeostaticState \<times> BiomarkerHistory list)" where
  "applyEffects clock i playedCard st history [] = Inr (st, history)"
| "applyEffects clock i playedCard st history (effect # rest) =
     (case applyEffect clock i playedCard st effect of
        Inl e \<Rightarrow> Inl e
      | Inr (st', entry) \<Rightarrow> applyEffects clock (Suc i) playedCard st' (history @ [entry]) rest)"

definition checkGameEnd :: "HomeostaticState GameSession \<Rightarrow> GameStatus" where
  "checkGameEnd session =
     (let sys = systems (currentState session);
          criticalSystems = filter isCritical sys
      in if length criticalSystems \<ge> 2 then DEFEAT
         else
           let allStable = list_all (\<lambda>b.
                 \<not> isCritical b \<and>
                 currentValue b \<ge> fst (normalRange b) \<and>
                 currentValue b \<le> snd (normalRange b)) sys
           in if allStable \<and> turnCount session > 5 then VICTORY
              else IN_PROGRESS)"

text \<open>
  \<^verbatim>\<open>processTurn\<close> read functionally: the value of the returned session, with the
  state it refers to. (What the call does to the objects of its argument is the
  subject of the last section.)
\<close>

definition processTurn ::
  "(nat \<Rightarrow> Date) \<Rightarrow> HomeostaticState GameSession \<Rightarrow> Card
     \<Rightarrow> error + (HomeostaticState GameSession \<times> BiomarkerHistory list)" where
  "processTurn clock session playedCard =
     (case applyEffects clock 0 playedCard (currentState session) [] (effects playedCard) of
        Inl e \<Rightarrow> Inl e
      | Inr (st', history) \<Rightarrow>
          let newSession = session\<lparr>currentState := st'\<rparr>;
              newSession = newSession\<lparr>hand :=
                 filter (\<lambda>card. card_id card \<noteq> card_id playedCard) (hand newSession)\<rparr>;
              newSession = newSession\<lparr>discardPile := discardPile newSession @ [playedCard]\<rparr>;
              newSession = newSession\<lparr>status := checkGameEnd newSession\<rparr>;
              newSession = newSession\<lparr>turnCount := turnCount newSession + 1\<rparr>
          in Inr (newSession, history))"

definition drawCard ::
  "'st GameSession \<Rightarrow> 'st GameSession \<times> Card option" where
  "drawCard session =
     (let newSession = session;
          newSession =
            (if length (deck newSession) = 0
             then newSession\<lparr>deck := discardPile newSession, discardPile := []\<rparr>
             else newSession)
      in case deck newSession of
           [] \<Rightarrow> (newSession, None)
         | drawnCard # rest \<Rightarrow>
             (newSession\<lparr>deck := rest, hand := hand newSession @ [drawnCard]\<rparr>,
              Some drawnCard))"

definition getScore :: "HomeostaticState GameSession \<Rightarrow> int" where
  "getScore session =
     (let baseScore = 1000;
          turnPenalty = turnCount session * 10;
          criticalPenalty =
            int (length (filter isCritical (systems (currentState session)))) * 50;
          stabilityBonus =
            int (length (filter (\<lambda>s.
                   currentValue s \<ge> fst (normalRange s) \<and>
                   currentValue s \<le> snd (normalRange s))
                 (systems (currentState session)))) * 100
      in max 0 (baseScore - turnPenalty - criticalPenalty + stabilityBonus))"

section \<open>The resolver on the object store\<close>

text \<open>
  JavaScript objects are references. \<^verbatim>\<open>{ ...session }\<close> copies the fields of the
  session object into a fresh object, so the copy's \<^verbatim>\<open>currentState\<close> is the
  \<^emph>\<open>same\<close> state object as the original's, and
  \<^verbatim>\<open>newSession.currentState[systemKey] = {...}\<close> writes into that shared object.
  The store keeps the two kinds of object the engine writes to: session objects
  (whose \<^verbatim>\<open>currentState\<close> is an address) and state objects. Biomarker objects,
  arrays and cards are never updated in place by the engine (each is rebuilt by a
  spread, \<^verbatim>\<open>filter\<close> or \<^verbatim>\<open>slice\<close>), so they are values here.
\<close>

type_synonym addr = nat

record heap =
  sessionObjs :: "addr \<rightharpoonup> addr GameSession"
  stateObjs :: "addr \<rightharpoonup> HomeostaticState"
  nextAddr :: addr

text \<open>What a reader of the session at address \<open>a\<close> sees, nested state included.\<close>

definition withState :: "addr GameSession \<Rightarrow> HomeostaticState \<Rightarrow> HomeostaticState GameSession" where
  "withState so st =
     \<lparr>session_id = session_id so, playerId = playerId so, status = status so,
      currentState = st, hand = hand so, deck = deck so, discardPile = discardPile so,
      currentEvent = currentEvent so, score = score so, turnCount = turnCount so,
      startTime = startTime so, lastSave = lastSave so, difficulty = difficulty so\<rparr>"

definition readSession :: "heap \<Rightarrow> addr \<Rightarrow> HomeostaticState GameSession option" where
  "readSession h a =
     (case sessionObjs h a of
        None \<Rightarrow> None
      | Some so \<Rightarrow>
          (case stateObjs h (currentState so) of
             None \<Rightarrow> None
           | Some st \<Rightarrow> Some (withState so st)))"

text \<open>\<^verbatim>\<open>{ ...session }\<close>: a fresh object with the same field values.\<close>

definition spreadSession :: "heap \<Rightarrow> addr GameSession \<Rightarrow> heap \<times> addr" where
  "spreadSession h so =
     (h\<lparr>sessionObjs := (sessionObjs h)(nextAddr h \<mapsto> so), nextAddr := Suc (nextAddr h)\<rparr>,
      nextAddr h)"

text \<open>An assignment \<^verbatim>\<open>newSession.field = ...\<close>.\<close>

definition assignSession :: "heap \<Rightarrow> addr \<Rightarrow> (addr GameSession \<Rightarrow> addr GameSession) \<Rightarrow> heap" where
  "assignSession h a f =
     (case sessionObjs h a of
        None \<Rightarrow> h
      | Some so \<Rightarrow> h\<lparr>sessionObjs := (sessionObjs h)(a \<mapsto> f so)\<rparr>)"

text \<open>
  The body of the \<^verbatim>\<open>forEach\<close> on the store: the state object that
  \<^verbatim>\<open>newSession.currentState\<close> refers to is read, and the new biomarker is
  assigned to its property \<^verbatim>\<open>systemKey\<close>. An address without an object cannot
  reach the engine from typed code; the model answers \<open>TypeError\<close> there.
\<close>

definition applyEffectObj ::
  "(nat \<Rightarrow> Date) \<Rightarrow> nat \<Rightarrow> Card \<Rightarrow> heap \<Rightarrow> addr \<Rightarrow> CardEffect
     \<Rightarrow> heap \<times> (error + BiomarkerHistory)" where
  "applyEffectObj clock i playedCard h newSession effect =
     (case sessionObjs h newSession of
        None \<Rightarrow> (h, Inl TypeError)
      | Some so \<Rightarrow>
          (case stateObjs h (currentState so) of
             None \<Rightarrow> (h, Inl TypeError)
           | Some st \<Rightarrow>
               (case applyEffect clock i playedCard st effect of
                  Inl e \<Rightarrow> (h, Inl e)
                | Inr (st', entry) \<Rightarrow>
                    (h\<lparr>stateObjs := (stateObjs h)(currentState so \<mapsto> st')\<rparr>, Inr entry))))"

fun applyEffectsObj ::
  "(nat \<Rightarrow> Date) \<Rightarrow> nat \<Rightarrow> Card \<Rightarrow> heap \<Rightarrow> addr \<Rightarrow> BiomarkerHistory list
     \<Rightarrow> CardEffect list \<Rightarrow> heap \<times> (error + BiomarkerHistory list)" where
  "applyEffectsObj clock i playedCard h newSession history [] = (h, Inr history)"
| "applyEffectsObj clock i playedCard h newSession history (effect # rest) =
     (case applyEffectObj clock i playedCard h newSession effect of
        (h', Inl e) \<Rightarrow> (h', Inl e)
      | (h', Inr entry) \<Rightarrow>
          applyEffectsObj clock (Suc i) playedCard h' newSession (history @ [entry]) rest)"

definition checkGameEndObj :: "heap \<Rightarrow> addr \<Rightarrow> GameStatus option" where
  "checkGameEndObj h a = map_option checkGameEnd (readSession h a)"

text \<open>
  \<^verbatim>\<open>processTurn\<close> on the store: takes the address of the session object and
  returns the store after the call with the address of \<^verbatim>\<open>newSession\<close> and the
  history, or the store as the exception leaves it.
\<close>

definition processTurnObj ::
  "(nat \<Rightarrow> Date) \<Rightarrow> heap \<Rightarrow> addr \<Rightarrow> Card
     \<Rightarrow> heap \<times> (error + (addr \<times> BiomarkerHistory list))" where
  "processTurnObj clock h session playedCard =
     (case sessionObjs h session of
        None \<Rightarrow> (h, Inl TypeError)
      | Some so \<Rightarrow>
          (case spreadSession h so of (h1, newSession) \<Rightarrow>
           (case applyEffectsObj clock 0 playedCard h1 newSession [] (effects playedCard) of
              (h2, Inl e) \<Rightarrow> (h2, Inl e)
            | (h2, Inr history) \<Rightarrow>
                let h3 = assignSession h2 newSession (\<lambda>obj. obj\<lparr>hand :=
                           filter (\<lambda>card. card_id card \<noteq> card_id playedCard) (hand obj)\<rparr>);
                    h4 = assignSession h3 newSession (\<lambda>obj. obj\<lparr>discardPile :=
                           discardPile obj @ [playedCard]\<rparr>)
                in (case checkGameEndObj h4 newSession of
                      None \<Rightarrow> (h4, Inl TypeError)
                    | Some st \<Rightarrow>
                        let h5 = assignSession h4 newSession (\<lambda>obj. obj\<lparr>status := st\<rparr>);
                            h6 = assignSession h5 newSession (\<lambda>obj. obj\<lparr>turnCount := turnCount obj + 1\<rparr>)
                        in (h6, Inr (newSession, history))))))"

text \<open>
  \<^verbatim>\<open>drawCard\<close> on the store: the copy is the only object written. (The first
  length test reads the copy's deck, which is the argument's.)
\<close>

definition drawCardObj :: "heap \<Rightarrow> addr \<Rightarrow> heap \<times> (error + (addr \<times> Card option))" where
  "drawCardObj h session =
     (case sessionObjs h session of
        None \<Rightarrow> (h, Inl TypeError)
      | Some so \<Rightarrow>
          (case spreadSession h so of (h1, newSession) \<Rightarrow>
             let h2 = (if length (deck so) = 0
                       then assignSession
                              (assignSession h1 newSession (\<lambda>obj. obj\<lparr>deck := discardPile obj\<rparr>))
                              newSession (\<lambda>obj. obj\<lparr>discardPile := []\<rparr>)
                       else h1)
             in (case map_option deck (sessionObjs h2 newSession) of
                   None \<Rightarrow> (h2, Inl TypeError)
                 | Some [] \<Rightarrow> (h2, Inr (newSession, None))
                 | Some (drawnCard # rest) \<Rightarrow>
                     let h3 = assignSession h2 newSession (\<lambda>obj. obj\<lparr>deck := rest\<rparr>);
                         h4 = assignSession h3 newSession (\<lambda>obj. obj\<lparr>hand := hand obj @ [drawnCard]\<rparr>)
                     in (h4, Inr (newSession, Some drawnCard)))))"

section \<open>Vocabulary of the properties\<close>

text \<open>A card all of whose effects name one of the three systems.\<close>

definition validCard :: "Card \<Rightarrow> bool" where
  "validCard c = list_all (\<lambda>e. systemKey (targetSystem e) \<noteq> None) (effects c)"

text \<open>A biomarker inside its normal range, bounds included.\<close>

definition withinNormal :: "Biomarker \<Rightarrow> bool" where
  "withinNormal b = (fst (normalRange b) \<le> currentValue b \<and> currentValue b \<le> snd (normalRange b))"

definition criticalCount :: "HomeostaticState \<Rightarrow> nat" where
  "criticalCount st =
     (if isCritical (glucose st) then 1 else 0) + (if isCritical (ph st) then 1 else 0)
       + (if isCritical (temperature st) then 1 else 0)"

definition stableCount :: "HomeostaticState \<Rightarrow> nat" where
  "stableCount st =
     (if withinNormal (glucose st) then 1 else 0) + (if withinNormal (ph st) then 1 else 0)
       + (if withinNormal (temperature st) then 1 else 0)"

definition allStable :: "HomeostaticState \<Rightarrow> bool" where
  "allStable st =
     ((\<not> isCritical (glucose st) \<and> withinNormal (glucose st)) \<and>
      (\<not> isCritical (ph st) \<and> withinNormal (ph st)) \<and>
      (\<not> isCritical (temperature st) \<and> withinNormal (temperature st)))"

text \<open>A reading strictly below the lower or above the upper critical bound.\<close>

definition outsideCritical :: "Biomarker \<Rightarrow> bool" where
  "outsideCritical b =
     (currentValue b < fst (criticalRange b) \<or> currentValue b > snd (criticalRange b))"

text \<open>The effects of a list that name system \<open>k\<close>, and the sum of their deltas.\<close>

definition targeted :: "CardEffect list \<Rightarrow> HomeostaticSystem \<Rightarrow> bool" where
  "targeted es k = list_ex (\<lambda>e. systemKey (targetSystem e) = Some k) es"

definition deltaSum :: "CardEffect list \<Rightarrow> HomeostaticSystem \<Rightarrow> real" where
  "deltaSum es k =
     sum_list (map effect_value (filter (\<lambda>e. systemKey (targetSystem e) = Some k) es))"

text \<open>The cards of a session, over its three piles.\<close>

definition allCards :: "'st GameSession \<Rightarrow> Card multiset" where
  "allCards s = mset (hand s) + mset (deck s) + mset (discardPile s)"

definition totalCards :: "'st GameSession \<Rightarrow> nat" where
  "totalCards s = length (hand s) + length (deck s) + length (discardPile s)"

text \<open>No card twice, neither inside a pile nor across piles.\<close>

definition pilesDisjoint :: "'st GameSession \<Rightarrow> bool" where
  "pilesDisjoint s = distinct (hand s @ deck s @ discardPile s)"

section \<open>Example sessions and cards\<close>

text \<open>The readings and ranges of the spec's scenarios and of the domain tests.\<close>

definition glucose0 :: Biomarker where
  "glucose0 =
     \<lparr>system = GLUCOSE, name = ''Glicose'', currentValue = 90, normalRange = (70, 110),
      criticalRange = (50, 140), unit = ''mg/dL'', isCritical = False, trend = stable,
      lastUpdate = 0\<rparr>"

definition ph0 :: Biomarker where
  "ph0 =
     \<lparr>system = PH, name = ''pH'', currentValue = 74 / 10, normalRange = (735 / 100, 745 / 100),
      criticalRange = (72 / 10, 76 / 10), unit = ''pH'', isCritical = False, trend = stable,
      lastUpdate = 0\<rparr>"

definition temperature0 :: Biomarker where
  "temperature0 =
     \<lparr>system = TEMPERATURE, name = ''Temperatura'', currentValue = 37,
      normalRange = (365 / 10, 375 / 10), criticalRange = (35, 40), unit = ''C'',
      isCritical = False, trend = stable, lastUpdate = 0\<rparr>"

definition state0 :: HomeostaticState where
  "state0 = \<lparr>glucose = glucose0, ph = ph0, temperature = temperature0\<rparr>"

definition mkEffect :: "string \<Rightarrow> real \<Rightarrow> CardEffect" where
  "mkEffect k v =
     \<lparr>targetSystem = k, effect_value = v, duration = None, effect_type = INSTANT,
      condition = None\<rparr>"

definition mkCard :: "string \<Rightarrow> CardEffect list \<Rightarrow> Card" where
  "mkCard i es =
     \<lparr>card_id = i, card_name = ''Test Card'', card_type = ACTION, description = [],
      imageUrl = [], effects = es, cost = 1, rarity = COMMON, flavorText = None,
      educationalNote = None\<rparr>"

definition mkSession ::
  "'st \<Rightarrow> int \<Rightarrow> Card list \<Rightarrow> Card list \<Rightarrow> Card list \<Rightarrow> 'st GameSession" where
  "mkSession st n h d p =
     \<lparr>session_id = ''test-session'', playerId = ''test-player'', status = IN_PROGRESS,
      currentState = st, hand = h, deck = d, discardPile = p, currentEvent = None,
      score = 0, turnCount = n, startTime = 0, lastSave = 0, difficulty = medium\<rparr>"

definition clock0 :: "nat \<Rightarrow> Date" where
  "clock0 k = 1000 + k"

definition neutralCard :: Card where
  "neutralCard = mkCard ''neutral'' []"

definition insulinCard :: Card where
  "insulinCard = mkCard ''insulin'' [mkEffect ''glucose'' (- 10)]"

text \<open>
  A card that drives glucose and pH outside their critical ranges with its first two
  effects and brings both back with the last two.
\<close>

definition swingCard :: Card where
  "swingCard =
     mkCard ''swing''
       [mkEffect ''glucose'' (- 50), mkEffect ''ph'' (- 1),
        mkEffect ''glucose'' 50, mkEffect ''ph'' 1]"

text \<open>A card that leaves glucose and pH critical.\<close>

definition crashCard :: Card where
  "crashCard = mkCard ''crash'' [mkEffect ''glucose'' (- 50), mkEffect ''ph'' (- 1)]"

definition cardX :: Card where
  "cardX = mkCard ''x'' []"

text \<open>Another card that carries the id of \<open>cardX\<close>.\<close>

definition cardX2 :: Card where
  "cardX2 = mkCard ''x'' [mkEffect ''glucose'' 1]"

definition cardY :: Card where
  "cardY = mkCard ''y'' []"

text \<open>A state whose glucose flag is set although the reading is normal.\<close>

definition staleState :: HomeostaticState where
  "staleState = state0\<lparr>glucose := glucose0\<lparr>isCritical := True\<rparr>\<rparr>"

text \<open>A card that puts glucose on its lower critical bound and pH below its own.\<close>

definition edgeCard :: Card where
  "edgeCard = mkCard ''edge'' [mkEffect ''glucose'' (- 40), mkEffect ''ph'' (- 1)]"

text \<open>A store with one session object (address 0) and its state object (address 1).\<close>

definition heap0 :: heap where
  "heap0 =
     \<lparr>sessionObjs = [0 \<mapsto> mkSession 1 1 [insulinCard] [] []],
      stateObjs = [1 \<mapsto> state0],
      nextAddr = 2\<rparr>"

section \<open>Basic facts about the resolver\<close>

lemma applyEffect_total:
  "systemKey (targetSystem e) \<noteq> None \<Longrightarrow> \<exists>st' en. applyEffect clk i c st e = Inr (st', en)"
  by (auto simp: applyEffect_def Let_def)

lemma applyEffects_total:
  "list_all (\<lambda>e. systemKey (targetSystem e) \<noteq> None) es
     \<Longrightarrow> \<exists>st' h'. applyEffects clk i c st h es = Inr (st', h')"
proof (induction es arbitrary: i st h)
  case Nil
  then show ?case by simp
next
  case (Cons e es)
  then obtain st1 en where 1: "applyEffect clk i c st e = Inr (st1, en)"
    using applyEffect_total[of e clk i c st] by auto
  from Cons show ?case by (simp add: 1)
qed

lemma processTurn_Inr:
  "applyEffects clk 0 c (currentState s) [] (effects c) = Inr (st', h) \<Longrightarrow>
   processTurn clk s c =
     Inr (s\<lparr>currentState := st',
            hand := filter (\<lambda>card. card_id card \<noteq> card_id c) (hand s),
            discardPile := discardPile s @ [c],
            status := checkGameEnd (s\<lparr>currentState := st'\<rparr>),
            turnCount := turnCount s + 1\<rparr>, h)"
  by (simp add: processTurn_def Let_def checkGameEnd_def)

text \<open>A card with valid effects always gets a result, and this is its shape.\<close>

lemma processTurn_returns:
  assumes "validCard c"
  obtains st' h where
    "applyEffects clk 0 c (currentState s) [] (effects c) = Inr (st', h)"
    "processTurn clk s c =
       Inr (s\<lparr>currentState := st',
              hand := filter (\<lambda>card. card_id card \<noteq> card_id c) (hand s),
              discardPile := discardPile s @ [c],
              status := checkGameEnd (s\<lparr>currentState := st'\<rparr>),
              turnCount := turnCount s + 1\<rparr>, h)"
proof -
  from assms obtain st' h where
    1: "applyEffects clk 0 c (currentState s) [] (effects c) = Inr (st', h)"
    using applyEffects_total[of "effects c" clk 0 c "currentState s" "[]"]
    by (auto simp: validCard_def)
  from that[OF 1 processTurn_Inr[OF 1]] show thesis .
qed

lemma checkGameEnd_DEFEAT:
  "(checkGameEnd s = DEFEAT) = (2 \<le> criticalCount (currentState s))"
  by (simp add: checkGameEnd_def criticalCount_def systems_def Let_def)

lemma checkGameEnd_VICTORY:
  "(checkGameEnd s = VICTORY) = (allStable (currentState s) \<and> turnCount s > 5)"
  by (auto simp add: checkGameEnd_def allStable_def withinNormal_def systems_def Let_def)

lemma checkGameEnd_cases:
  "checkGameEnd s =
     (if 2 \<le> criticalCount (currentState s) then DEFEAT
      else if allStable (currentState s) \<and> turnCount s > 5 then VICTORY else IN_PROGRESS)"
  by (auto simp add: checkGameEnd_def allStable_def criticalCount_def withinNormal_def
      systems_def Let_def)

lemma allStable_not_critical: "allStable st \<Longrightarrow> criticalCount st = 0"
  by (simp add: allStable_def criticalCount_def)

lemmas example_defs =
  state0_def glucose0_def ph0_def temperature0_def mkEffect_def mkCard_def mkSession_def
  clock0_def

section \<open>Victory\<close>

lemma insulin_keeps_stable:
  "applyEffects clock0 0 insulinCard state0 [] (effects insulinCard) = Inr (st, h) \<Longrightarrow> allStable st"
  by (auto simp: insulinCard_def example_defs applyEffect_def systemKey_def Let_def
      isCriticalAt_def allStable_def withinNormal_def)

text \<open>
  Claim C1, as the code has it. \<^verbatim>\<open>processTurn\<close> runs \<^verbatim>\<open>checkGameEnd\<close> before it
  increments \<^verbatim>\<open>turnCount\<close>, so the count that must exceed 5 is the one the session
  had before the call. For every card with valid effects the call returns; the
  returned \<^verbatim>\<open>turnCount\<close> is the old one plus 1; the status is VICTORY exactly when
  all three biomarkers are non-critical and within their normal range after the
  effects and the count before the call is greater than 5. With all three stable,
  a count of 5 before the call gives 6 and IN_PROGRESS, a count of 6 gives 7 and
  VICTORY.
\<close>

theorem C1_victory_needs_six_turns_before:
  assumes "validCard c"
  shows "\<exists>s' h. processTurn clk s c = Inr (s', h)
           \<and> applyEffects clk 0 c (currentState s) [] (effects c) = Inr (currentState s', h)
           \<and> turnCount s' = turnCount s + 1
           \<and> (status s' = VICTORY \<longleftrightarrow> allStable (currentState s') \<and> turnCount s > 5)
           \<and> (allStable (currentState s') \<and> turnCount s = 5
                \<longrightarrow> turnCount s' = 6 \<and> status s' = IN_PROGRESS)
           \<and> (allStable (currentState s') \<and> turnCount s = 6
                \<longrightarrow> turnCount s' = 7 \<and> status s' = VICTORY)"
proof -
  obtain st' h where
    1: "applyEffects clk 0 c (currentState s) [] (effects c) = Inr (st', h)" and
    2: "processTurn clk s c =
       Inr (s\<lparr>currentState := st',
              hand := filter (\<lambda>card. card_id card \<noteq> card_id c) (hand s),
              discardPile := discardPile s @ [c],
              status := checkGameEnd (s\<lparr>currentState := st'\<rparr>),
              turnCount := turnCount s + 1\<rparr>, h)"
    using processTurn_returns[OF assms] by blast
  show ?thesis
    unfolding 2 using 1
    by (auto simp: checkGameEnd_VICTORY checkGameEnd_cases dest: allStable_not_critical)
qed

text \<open>The rule at work: six turns played, a card that keeps everything stable.\<close>

theorem C1_witness:
  "validCard insulinCard \<and>
   (\<exists>s' h. processTurn clock0 (mkSession state0 6 [insulinCard] [] []) insulinCard = Inr (s', h)
      \<and> turnCount s' = 7 \<and> status s' = VICTORY)"
proof -
  have v: "validCard insulinCard"
    by (simp add: validCard_def insulinCard_def mkCard_def mkEffect_def systemKey_def)
  from C1_victory_needs_six_turns_before[OF v, of clock0 "mkSession state0 6 [insulinCard] [] []"]
  obtain s' h where
    p: "processTurn clock0 (mkSession state0 6 [insulinCard] [] []) insulinCard = Inr (s', h)" and
    e: "applyEffects clock0 0 insulinCard (currentState (mkSession state0 6 [insulinCard] [] [])) []
          (effects insulinCard) = Inr (currentState s', h)" and
    r: "allStable (currentState s') \<and> turnCount (mkSession state0 6 [insulinCard] [] []) = 6
          \<longrightarrow> turnCount s' = 7 \<and> status s' = VICTORY"
    by blast
  from e have "allStable (currentState s')"
    by (intro insulin_keeps_stable) (simp add: mkSession_def)
  with r have "turnCount s' = 7 \<and> status s' = VICTORY"
    by (simp add: mkSession_def)
  with v p show ?thesis by blast
qed

text \<open>
  Scenario C of the spec on the code: all three biomarkers stable, \<^verbatim>\<open>turnCount\<close> 5,
  a card without effects. The result has \<^verbatim>\<open>turnCount\<close> 6 and is still IN_PROGRESS.
\<close>

theorem C1_counterexample:
  "allStable state0 \<and>
   status (mkSession state0 5 [neutralCard] [] []) = IN_PROGRESS \<and>
   turnCount (mkSession state0 5 [neutralCard] [] []) = 5 \<and>
   processTurn clock0 (mkSession state0 5 [neutralCard] [] []) neutralCard
     = Inr (mkSession state0 6 [] [] [neutralCard], []) \<and>
   turnCount (mkSession state0 6 [] [] [neutralCard]) = 6 \<and>
   status (mkSession state0 6 [] [] [neutralCard]) \<noteq> VICTORY"
  by (simp add: allStable_def withinNormal_def example_defs neutralCard_def
      processTurn_def checkGameEnd_def systems_def Let_def)

section \<open>Defeat\<close>

lemma crash_two_critical:
  "applyEffects clock0 0 crashCard state0 [] (effects crashCard) = Inr (st, h)
     \<Longrightarrow> isCritical (glucose st) \<and> isCritical (ph st) \<and> \<not> isCritical (temperature st)"
  by (auto simp: crashCard_def example_defs applyEffect_def systemKey_def Let_def
      isCriticalAt_def)

text \<open>
  Claim C3. For every card with valid effects \<^verbatim>\<open>processTurn\<close> returns, and the
  returned status is DEFEAT exactly when at least two of the three biomarkers carry
  \<^verbatim>\<open>isCritical\<close> after the card's effects, whatever \<^verbatim>\<open>turnCount\<close> is; with two
  critical biomarkers the status is never VICTORY; glucose and pH critical give DEFEAT.
\<close>

theorem C3_defeat_rule:
  assumes "validCard c"
  shows "\<exists>s' h. processTurn clk s c = Inr (s', h)
           \<and> applyEffects clk 0 c (currentState s) [] (effects c) = Inr (currentState s', h)
           \<and> (status s' = DEFEAT \<longleftrightarrow> 2 \<le> criticalCount (currentState s'))
           \<and> (2 \<le> criticalCount (currentState s') \<longrightarrow> status s' \<noteq> VICTORY)
           \<and> (isCritical (glucose (currentState s')) \<and> isCritical (ph (currentState s'))
                \<longrightarrow> status s' = DEFEAT)"
proof -
  obtain st' h where
    1: "applyEffects clk 0 c (currentState s) [] (effects c) = Inr (st', h)" and
    2: "processTurn clk s c =
       Inr (s\<lparr>currentState := st',
              hand := filter (\<lambda>card. card_id card \<noteq> card_id c) (hand s),
              discardPile := discardPile s @ [c],
              status := checkGameEnd (s\<lparr>currentState := st'\<rparr>),
              turnCount := turnCount s + 1\<rparr>, h)"
    using processTurn_returns[OF assms] by blast
  have 3: "isCritical (glucose st') \<and> isCritical (ph st') \<Longrightarrow> 2 \<le> criticalCount st'"
    by (simp add: criticalCount_def)
  show ?thesis
    unfolding 2 using 1 3
    by (simp add: checkGameEnd_cases)
qed

text \<open>Scenario D: glucose and pH critical, temperature normal, nine turns played.\<close>

theorem C3_witness:
  "validCard crashCard \<and>
   (\<exists>s' h. processTurn clock0 (mkSession state0 9 [crashCard] [] []) crashCard = Inr (s', h)
      \<and> isCritical (glucose (currentState s')) \<and> isCritical (ph (currentState s'))
      \<and> \<not> isCritical (temperature (currentState s'))
      \<and> status s' = DEFEAT)"
proof -
  have v: "validCard crashCard"
    by (simp add: validCard_def crashCard_def mkCard_def mkEffect_def systemKey_def)
  from C3_defeat_rule[OF v, of clock0 "mkSession state0 9 [crashCard] [] []"]
  obtain s' h where
    p: "processTurn clock0 (mkSession state0 9 [crashCard] [] []) crashCard = Inr (s', h)" and
    e: "applyEffects clock0 0 crashCard (currentState (mkSession state0 9 [crashCard] [] [])) []
          (effects crashCard) = Inr (currentState s', h)" and
    r: "isCritical (glucose (currentState s')) \<and> isCritical (ph (currentState s'))
          \<longrightarrow> status s' = DEFEAT"
    by blast
  from e have c: "isCritical (glucose (currentState s')) \<and> isCritical (ph (currentState s'))
      \<and> \<not> isCritical (temperature (currentState s'))"
    by (intro crash_two_critical) (simp add: mkSession_def)
  from c r v p show ?thesis by blast
qed

section \<open>When the termination rule runs\<close>

lemma swing_ends_stable:
  "applyEffects clock0 0 swingCard state0 [] (effects swingCard) = Inr (st, h) \<Longrightarrow> allStable st"
  by (auto simp: swingCard_def example_defs applyEffect_def systemKey_def Let_def
      isCriticalAt_def allStable_def withinNormal_def)

text \<open>
  Claim C4, as the code has it. \<^verbatim>\<open>checkGameEnd\<close> runs once per call, after the
  whole effect list: the returned status is a function of the biomarkers after the
  last effect and of the \<^verbatim>\<open>turnCount\<close> before the call. With fewer than two
  critical biomarkers at the end it is not DEFEAT, whatever the states in between
  were; and the status of the input session is not consulted.
\<close>

theorem C4_status_from_final_state:
  assumes "validCard c"
  shows "\<exists>s' h. processTurn clk s c = Inr (s', h)
           \<and> applyEffects clk 0 c (currentState s) [] (effects c) = Inr (currentState s', h)
           \<and> status s' =
               (if 2 \<le> criticalCount (currentState s') then DEFEAT
                else if allStable (currentState s') \<and> turnCount s > 5 then VICTORY
                else IN_PROGRESS)
           \<and> (criticalCount (currentState s') < 2 \<longrightarrow> status s' \<noteq> DEFEAT)
           \<and> (\<forall>x. processTurn clk (s\<lparr>status := x\<rparr>) c = Inr (s', h))"
proof -
  obtain st' h where
    1: "applyEffects clk 0 c (currentState s) [] (effects c) = Inr (st', h)" and
    2: "processTurn clk s c =
       Inr (s\<lparr>currentState := st',
              hand := filter (\<lambda>card. card_id card \<noteq> card_id c) (hand s),
              discardPile := discardPile s @ [c],
              status := checkGameEnd (s\<lparr>currentState := st'\<rparr>),
              turnCount := turnCount s + 1\<rparr>, h)"
    using processTurn_returns[OF assms] by blast
  have 3: "processTurn clk (s\<lparr>status := x\<rparr>) c = processTurn clk s c" for x
    by (simp add: processTurn_def Let_def checkGameEnd_def split: sum.splits)
  show ?thesis
    unfolding 3 unfolding 2 using 1
    by (simp add: checkGameEnd_cases)
qed

text \<open>
  The swing card after six turns: two biomarkers critical after its second effect,
  none at the end, and the call answers VICTORY, also from a session already DEFEAT.
\<close>

theorem C4_witness:
  "validCard swingCard \<and>
   (\<exists>s' h. processTurn clock0 (mkSession state0 6 [swingCard] [] []) swingCard = Inr (s', h)
      \<and> criticalCount (currentState s') = 0 \<and> status s' = VICTORY
      \<and> processTurn clock0 ((mkSession state0 6 [swingCard] [] [])\<lparr>status := DEFEAT\<rparr>) swingCard
          = Inr (s', h))"
proof -
  have v: "validCard swingCard"
    by (simp add: validCard_def swingCard_def mkCard_def mkEffect_def systemKey_def)
  from C4_status_from_final_state[OF v, of clock0 "mkSession state0 6 [swingCard] [] []"]
  obtain s' h where
    p: "processTurn clock0 (mkSession state0 6 [swingCard] [] []) swingCard = Inr (s', h)" and
    e: "applyEffects clock0 0 swingCard (currentState (mkSession state0 6 [swingCard] [] [])) []
          (effects swingCard) = Inr (currentState s', h)" and
    r: "status s' =
               (if 2 \<le> criticalCount (currentState s') then DEFEAT
                else if allStable (currentState s')
                     \<and> turnCount (mkSession state0 6 [swingCard] [] []) > 5 then VICTORY
                else IN_PROGRESS)" and
    x: "\<forall>x. processTurn clock0 ((mkSession state0 6 [swingCard] [] [])\<lparr>status := x\<rparr>) swingCard
          = Inr (s', h)"
    by blast
  from e have a: "allStable (currentState s')"
    by (intro swing_ends_stable) (simp add: mkSession_def)
  then have c: "criticalCount (currentState s') = 0"
    by (rule allStable_not_critical)
  with r a have "status s' = VICTORY"
    by (simp add: mkSession_def)
  with v p c x show ?thesis by blast
qed

text \<open>
  The claim as stated fails on the swing card: after two of its four effects two
  biomarkers are critical, and the status returned is IN_PROGRESS (one turn played)
  or VICTORY (six turns played), not DEFEAT.
\<close>

theorem C4_counterexample:
  "validCard swingCard \<and>
   map_sum id (criticalCount \<circ> fst)
     (applyEffects clock0 0 swingCard state0 [] (take 2 (effects swingCard))) = Inr 2 \<and>
   map_sum id (status \<circ> fst)
     (processTurn clock0 (mkSession state0 1 [swingCard] [] []) swingCard) = Inr IN_PROGRESS \<and>
   map_sum id (status \<circ> fst)
     (processTurn clock0 (mkSession state0 6 [swingCard] [] []) swingCard) = Inr VICTORY"
  by (simp add: validCard_def swingCard_def example_defs applyEffect_def systemKey_def Let_def
      isCriticalAt_def criticalCount_def processTurn_def checkGameEnd_def systems_def)

section \<open>The critical flag\<close>

lemma applyEffect_target:
  assumes "applyEffect clk i c st e = Inr (st', en)"
  shows "\<exists>k. systemKey (targetSystem e) = Some k
    \<and> currentValue (biomarkerOf st' k) = currentValue (biomarkerOf st k) + effect_value e
    \<and> newValue en = currentValue (biomarkerOf st' k)
    \<and> (isCritical (biomarkerOf st' k) \<longleftrightarrow> outsideCritical (biomarkerOf st' k))
    \<and> (\<forall>j. criticalRange (biomarkerOf st' j) = criticalRange (biomarkerOf st j))
    \<and> (\<forall>j. j \<noteq> k \<longrightarrow> biomarkerOf st' j = biomarkerOf st j)"
proof -
  from assms obtain k where k: "systemKey (targetSystem e) = Some k"
    by (auto simp: applyEffect_def split: option.splits)
  have 1: "currentValue (biomarkerOf st' k) = currentValue (biomarkerOf st k) + effect_value e"
    using assms k by (cases k) (auto simp: applyEffect_def Let_def)
  have 2: "isCritical (biomarkerOf st' k) \<longleftrightarrow> outsideCritical (biomarkerOf st' k)"
    using assms k
    by (cases k) (auto simp: applyEffect_def Let_def isCriticalAt_def outsideCritical_def
        split: prod.splits)
  have 3: "criticalRange (biomarkerOf st' j) = criticalRange (biomarkerOf st j)" for j
    using assms k by (cases k; cases j) (auto simp: applyEffect_def Let_def)
  have 4: "biomarkerOf st' j = biomarkerOf st j" if "j \<noteq> k" for j
    using assms k that by (cases k; cases j) (auto simp: applyEffect_def Let_def)
  have 5: "newValue en = currentValue (biomarkerOf st' k)"
    using assms k by (cases k) (auto simp: applyEffect_def Let_def)
  from k 1 2 3 4 5 show ?thesis by blast
qed

lemma targeted_Cons:
  "targeted (e # es) k \<longleftrightarrow> systemKey (targetSystem e) = Some k \<or> targeted es k"
  by (simp add: targeted_def)

lemma deltaSum_Cons:
  "deltaSum (e # es) k =
     (if systemKey (targetSystem e) = Some k then effect_value e else 0) + deltaSum es k"
  by (simp add: deltaSum_def)

lemma applyEffects_final:
  assumes "applyEffects clk i c st hist es = Inr (st', hs)"
  shows "currentValue (biomarkerOf st' k) = currentValue (biomarkerOf st k) + deltaSum es k
       \<and> criticalRange (biomarkerOf st' k) = criticalRange (biomarkerOf st k)
       \<and> (targeted es k \<or> (isCritical (biomarkerOf st k) \<longleftrightarrow> outsideCritical (biomarkerOf st k))
            \<longrightarrow> (isCritical (biomarkerOf st' k) \<longleftrightarrow> outsideCritical (biomarkerOf st' k)))
       \<and> (\<not> targeted es k \<longrightarrow> biomarkerOf st' k = biomarkerOf st k)"
  using assms
proof (induction es arbitrary: st hist i)
  case Nil
  then show ?case by (simp add: deltaSum_def targeted_def)
next
  case (Cons e es)
  from Cons.prems obtain st1 en where
    1: "applyEffect clk i c st e = Inr (st1, en)" and
    2: "applyEffects clk (Suc i) c st1 (hist @ [en]) es = Inr (st', hs)"
    by (auto split: sum.splits)
  note IH = Cons.IH[OF 2]
  obtain j where j: "systemKey (targetSystem e) = Some j"
    and v: "currentValue (biomarkerOf st1 j) = currentValue (biomarkerOf st j) + effect_value e"
    and f: "isCritical (biomarkerOf st1 j) \<longleftrightarrow> outsideCritical (biomarkerOf st1 j)"
    and r: "\<And>x. criticalRange (biomarkerOf st1 x) = criticalRange (biomarkerOf st x)"
    and o: "\<And>x. x \<noteq> j \<Longrightarrow> biomarkerOf st1 x = biomarkerOf st x"
    using applyEffect_target[OF 1] by blast
  show ?case
  proof (cases "k = j")
    case True
    with IH j v f r show ?thesis
      by (simp add: deltaSum_Cons targeted_Cons)
  next
    case False
    with IH j o[of k] r show ?thesis
      by (auto simp add: deltaSum_Cons targeted_Cons)
  qed
qed

lemma applyEffects_append:
  "applyEffects clk i c st hist (xs @ ys) =
     (case applyEffects clk i c st hist xs of
        Inl e \<Rightarrow> Inl e
      | Inr (st1, h1) \<Rightarrow> applyEffects clk (i + length xs) c st1 h1 ys)"
  by (induction xs arbitrary: i st hist) (auto split: sum.splits)

lemma applyEffects_step:
  assumes n: "n < length es"
    and all: "applyEffects clk 0 c st [] es = Inr (st', hs)"
  shows "\<exists>stn hn stn' en k.
           applyEffects clk 0 c st [] (take n es) = Inr (stn, hn)
         \<and> systemKey (targetSystem (es ! n)) = Some k
         \<and> applyEffect clk n c stn (es ! n) = Inr (stn', en)
         \<and> applyEffects clk 0 c st [] (take (Suc n) es) = Inr (stn', hn @ [en])
         \<and> currentValue (biomarkerOf stn' k) = currentValue (biomarkerOf stn k) + effect_value (es ! n)
         \<and> newValue en = currentValue (biomarkerOf stn' k)
         \<and> criticalRange (biomarkerOf stn' k) = criticalRange (biomarkerOf stn k)
         \<and> (isCritical (biomarkerOf stn' k) \<longleftrightarrow> outsideCritical (biomarkerOf stn' k))"
proof -
  have es: "es = take n es @ (es ! n) # drop (Suc n) es"
    using n by (simp add: id_take_nth_drop)
  have len: "length (take n es) = n"
    using n by simp
  from all have "applyEffects clk 0 c st [] (take n es @ (es ! n) # drop (Suc n) es) = Inr (st', hs)"
    using es by simp
  then obtain stn hn where
    1: "applyEffects clk 0 c st [] (take n es) = Inr (stn, hn)" and
    2: "applyEffects clk n c stn hn ((es ! n) # drop (Suc n) es) = Inr (st', hs)"
    unfolding applyEffects_append len by (auto split: sum.splits)
  from 2 obtain stn' en where
    3: "applyEffect clk n c stn (es ! n) = Inr (stn', en)"
    by (auto split: sum.splits)
  have t: "take (Suc n) es = take n es @ [es ! n]"
    using n by (simp add: take_Suc_conv_app_nth)
  have 4: "applyEffects clk 0 c st [] (take (Suc n) es) = Inr (stn', hn @ [en])"
    unfolding t applyEffects_append len by (simp add: 1 3)
  obtain k where k: "systemKey (targetSystem (es ! n)) = Some k"
    and v: "currentValue (biomarkerOf stn' k) = currentValue (biomarkerOf stn k) + effect_value (es ! n)"
    and w: "newValue en = currentValue (biomarkerOf stn' k)"
    and f: "isCritical (biomarkerOf stn' k) \<longleftrightarrow> outsideCritical (biomarkerOf stn' k)"
    and r: "\<And>x. criticalRange (biomarkerOf stn' x) = criticalRange (biomarkerOf stn x)"
    using applyEffect_target[OF 3] by blast
  from 1 k 3 4 v w r[of k] f show ?thesis by blast
qed

lemma outsideCritical_bound:
  "currentValue b = fst (criticalRange b) \<or> currentValue b = snd (criticalRange b)
     \<Longrightarrow> outsideCritical b \<longleftrightarrow> snd (criticalRange b) < fst (criticalRange b)"
  by (auto simp: outsideCritical_def)

text \<open>
  Claim C7. For every card with valid effects \<^verbatim>\<open>processTurn\<close> returns, and in the
  returned session every biomarker that some effect of the card names has its value
  moved by the sum of those deltas, keeps its critical range, and carries
  \<^verbatim>\<open>isCritical\<close> exactly when that value is below the lower or above the upper
  critical bound; a value equal to a bound is critical only when the range is
  inverted, so not for a range \<open>low \<le> high\<close>. A biomarker no effect names is left
  as it was. The same holds inside the loop: after the effect at each position of
  the list, the biomarker it names has the old value plus the delta and the flag
  recomputed from that value.
\<close>

theorem C7_flag_recomputed_in_processTurn:
  assumes "validCard c"
  shows "\<exists>s' h. processTurn clk s c = Inr (s', h)
           \<and> applyEffects clk 0 c (currentState s) [] (effects c) = Inr (currentState s', h)
           \<and> (\<forall>k. currentValue (biomarkerOf (currentState s') k)
                     = currentValue (biomarkerOf (currentState s) k) + deltaSum (effects c) k
                 \<and> criticalRange (biomarkerOf (currentState s') k)
                     = criticalRange (biomarkerOf (currentState s) k)
                 \<and> (\<not> targeted (effects c) k
                      \<longrightarrow> biomarkerOf (currentState s') k = biomarkerOf (currentState s) k)
                 \<and> (targeted (effects c) k \<longrightarrow>
                      (isCritical (biomarkerOf (currentState s') k) \<longleftrightarrow>
                         currentValue (biomarkerOf (currentState s') k)
                           < fst (criticalRange (biomarkerOf (currentState s') k))
                       \<or> currentValue (biomarkerOf (currentState s') k)
                           > snd (criticalRange (biomarkerOf (currentState s') k)))
                    \<and> (currentValue (biomarkerOf (currentState s') k)
                           = fst (criticalRange (biomarkerOf (currentState s') k))
                        \<or> currentValue (biomarkerOf (currentState s') k)
                           = snd (criticalRange (biomarkerOf (currentState s') k))
                        \<longrightarrow> (isCritical (biomarkerOf (currentState s') k) \<longleftrightarrow>
                               snd (criticalRange (biomarkerOf (currentState s') k))
                                 < fst (criticalRange (biomarkerOf (currentState s') k))))
                    \<and> (fst (criticalRange (biomarkerOf (currentState s') k))
                          \<le> snd (criticalRange (biomarkerOf (currentState s') k))
                        \<and> (currentValue (biomarkerOf (currentState s') k)
                              = fst (criticalRange (biomarkerOf (currentState s') k))
                           \<or> currentValue (biomarkerOf (currentState s') k)
                              = snd (criticalRange (biomarkerOf (currentState s') k)))
                        \<longrightarrow> \<not> isCritical (biomarkerOf (currentState s') k))))
           \<and> (\<forall>n < length (effects c). \<exists>stn hn stn' en k.
                   applyEffects clk 0 c (currentState s) [] (take n (effects c)) = Inr (stn, hn)
                 \<and> systemKey (targetSystem (effects c ! n)) = Some k
                 \<and> applyEffect clk n c stn (effects c ! n) = Inr (stn', en)
                 \<and> applyEffects clk 0 c (currentState s) [] (take (Suc n) (effects c))
                     = Inr (stn', hn @ [en])
                 \<and> currentValue (biomarkerOf stn' k)
                     = currentValue (biomarkerOf stn k) + effect_value (effects c ! n)
                 \<and> newValue en = currentValue (biomarkerOf stn' k)
                 \<and> criticalRange (biomarkerOf stn' k) = criticalRange (biomarkerOf stn k)
                 \<and> (isCritical (biomarkerOf stn' k) \<longleftrightarrow>
                       currentValue (biomarkerOf stn' k) < fst (criticalRange (biomarkerOf stn' k))
                     \<or> currentValue (biomarkerOf stn' k) > snd (criticalRange (biomarkerOf stn' k))))"
proof -
  obtain st' h where
    1: "applyEffects clk 0 c (currentState s) [] (effects c) = Inr (st', h)" and
    2: "processTurn clk s c =
       Inr (s\<lparr>currentState := st',
              hand := filter (\<lambda>card. card_id card \<noteq> card_id c) (hand s),
              discardPile := discardPile s @ [c],
              status := checkGameEnd (s\<lparr>currentState := st'\<rparr>),
              turnCount := turnCount s + 1\<rparr>, h)"
    using processTurn_returns[OF assms] by blast
  define s' where "s' = s\<lparr>currentState := st',
              hand := filter (\<lambda>card. card_id card \<noteq> card_id c) (hand s),
              discardPile := discardPile s @ [c],
              status := checkGameEnd (s\<lparr>currentState := st'\<rparr>),
              turnCount := turnCount s + 1\<rparr>"
  have cs: "currentState s' = st'"
    by (simp add: s'_def)
  have A: "processTurn clk s c = Inr (s', h)"
    unfolding s'_def by (rule 2)
  have B: "applyEffects clk 0 c (currentState s) [] (effects c) = Inr (currentState s', h)"
    unfolding cs by (rule 1)
  have C: "\<forall>k. currentValue (biomarkerOf (currentState s') k)
                     = currentValue (biomarkerOf (currentState s) k) + deltaSum (effects c) k
                 \<and> criticalRange (biomarkerOf (currentState s') k)
                     = criticalRange (biomarkerOf (currentState s) k)
                 \<and> (\<not> targeted (effects c) k
                      \<longrightarrow> biomarkerOf (currentState s') k = biomarkerOf (currentState s) k)
                 \<and> (targeted (effects c) k \<longrightarrow>
                      (isCritical (biomarkerOf (currentState s') k) \<longleftrightarrow>
                         currentValue (biomarkerOf (currentState s') k)
                           < fst (criticalRange (biomarkerOf (currentState s') k))
                       \<or> currentValue (biomarkerOf (currentState s') k)
                           > snd (criticalRange (biomarkerOf (currentState s') k)))
                    \<and> (currentValue (biomarkerOf (currentState s') k)
                           = fst (criticalRange (biomarkerOf (currentState s') k))
                        \<or> currentValue (biomarkerOf (currentState s') k)
                           = snd (criticalRange (biomarkerOf (currentState s') k))
                        \<longrightarrow> (isCritical (biomarkerOf (currentState s') k) \<longleftrightarrow>
                               snd (criticalRange (biomarkerOf (currentState s') k))
                                 < fst (criticalRange (biomarkerOf (currentState s') k))))
                    \<and> (fst (criticalRange (biomarkerOf (currentState s') k))
                          \<le> snd (criticalRange (biomarkerOf (currentState s') k))
                        \<and> (currentValue (biomarkerOf (currentState s') k)
                              = fst (criticalRange (biomarkerOf (currentState s') k))
                           \<or> currentValue (biomarkerOf (currentState s') k)
                              = snd (criticalRange (biomarkerOf (currentState s') k)))
                        \<longrightarrow> \<not> isCritical (biomarkerOf (currentState s') k)))"
    unfolding cs
  proof (rule allI)
    fix k
    define b where "b = biomarkerOf st' k"
    from applyEffects_final[OF 1, of k]
    have a: "currentValue b
               = currentValue (biomarkerOf (currentState s) k) + deltaSum (effects c) k"
      and r: "criticalRange b = criticalRange (biomarkerOf (currentState s) k)"
      and d: "targeted (effects c) k \<longrightarrow> (isCritical b \<longleftrightarrow> outsideCritical b)"
      and e: "\<not> targeted (effects c) k \<longrightarrow> b = biomarkerOf (currentState s) k"
      unfolding b_def by blast+
    have f: "targeted (effects c) k \<longrightarrow>
               (isCritical b \<longleftrightarrow>
                  currentValue b < fst (criticalRange b) \<or> currentValue b > snd (criticalRange b))
             \<and> (currentValue b = fst (criticalRange b) \<or> currentValue b = snd (criticalRange b)
                  \<longrightarrow> (isCritical b \<longleftrightarrow> snd (criticalRange b) < fst (criticalRange b)))
             \<and> (fst (criticalRange b) \<le> snd (criticalRange b)
                  \<and> (currentValue b = fst (criticalRange b) \<or> currentValue b = snd (criticalRange b))
                  \<longrightarrow> \<not> isCritical b)"
    proof
      assume "targeted (effects c) k"
      with d have "isCritical b \<longleftrightarrow> outsideCritical b" by simp
      then show "(isCritical b \<longleftrightarrow>
                  currentValue b < fst (criticalRange b) \<or> currentValue b > snd (criticalRange b))
             \<and> (currentValue b = fst (criticalRange b) \<or> currentValue b = snd (criticalRange b)
                  \<longrightarrow> (isCritical b \<longleftrightarrow> snd (criticalRange b) < fst (criticalRange b)))
             \<and> (fst (criticalRange b) \<le> snd (criticalRange b)
                  \<and> (currentValue b = fst (criticalRange b) \<or> currentValue b = snd (criticalRange b))
                  \<longrightarrow> \<not> isCritical b)"
        unfolding outsideCritical_def by auto
    qed
    from a r e f
    show "currentValue (biomarkerOf st' k)
                     = currentValue (biomarkerOf (currentState s) k) + deltaSum (effects c) k
                 \<and> criticalRange (biomarkerOf st' k)
                     = criticalRange (biomarkerOf (currentState s) k)
                 \<and> (\<not> targeted (effects c) k
                      \<longrightarrow> biomarkerOf st' k = biomarkerOf (currentState s) k)
                 \<and> (targeted (effects c) k \<longrightarrow>
                      (isCritical (biomarkerOf st' k) \<longleftrightarrow>
                         currentValue (biomarkerOf st' k)
                           < fst (criticalRange (biomarkerOf st' k))
                       \<or> currentValue (biomarkerOf st' k)
                           > snd (criticalRange (biomarkerOf st' k)))
                    \<and> (currentValue (biomarkerOf st' k)
                           = fst (criticalRange (biomarkerOf st' k))
                        \<or> currentValue (biomarkerOf st' k)
                           = snd (criticalRange (biomarkerOf st' k))
                        \<longrightarrow> (isCritical (biomarkerOf st' k) \<longleftrightarrow>
                               snd (criticalRange (biomarkerOf st' k))
                                 < fst (criticalRange (biomarkerOf st' k))))
                    \<and> (fst (criticalRange (biomarkerOf st' k))
                          \<le> snd (criticalRange (biomarkerOf st' k))
                        \<and> (currentValue (biomarkerOf st' k)
                              = fst (criticalRange (biomarkerOf st' k))
                           \<or> currentValue (biomarkerOf st' k)
                              = snd (criticalRange (biomarkerOf st' k)))
                        \<longrightarrow> \<not> isCritical (biomarkerOf st' k)))"
      unfolding b_def by (intro conjI)
  qed
  have D: "\<forall>n < length (effects c). \<exists>stn hn stn' en k.
                   applyEffects clk 0 c (currentState s) [] (take n (effects c)) = Inr (stn, hn)
                 \<and> systemKey (targetSystem (effects c ! n)) = Some k
                 \<and> applyEffect clk n c stn (effects c ! n) = Inr (stn', en)
                 \<and> applyEffects clk 0 c (currentState s) [] (take (Suc n) (effects c))
                     = Inr (stn', hn @ [en])
                 \<and> currentValue (biomarkerOf stn' k)
                     = currentValue (biomarkerOf stn k) + effect_value (effects c ! n)
                 \<and> newValue en = currentValue (biomarkerOf stn' k)
                 \<and> criticalRange (biomarkerOf stn' k) = criticalRange (biomarkerOf stn k)
                 \<and> (isCritical (biomarkerOf stn' k) \<longleftrightarrow>
                       currentValue (biomarkerOf stn' k) < fst (criticalRange (biomarkerOf stn' k))
                     \<or> currentValue (biomarkerOf stn' k) > snd (criticalRange (biomarkerOf stn' k)))"
  proof (intro allI impI)
    fix n assume "n < length (effects c)"
    from applyEffects_step[OF this 1]
    show "\<exists>stn hn stn' en k.
                   applyEffects clk 0 c (currentState s) [] (take n (effects c)) = Inr (stn, hn)
                 \<and> systemKey (targetSystem (effects c ! n)) = Some k
                 \<and> applyEffect clk n c stn (effects c ! n) = Inr (stn', en)
                 \<and> applyEffects clk 0 c (currentState s) [] (take (Suc n) (effects c))
                     = Inr (stn', hn @ [en])
                 \<and> currentValue (biomarkerOf stn' k)
                     = currentValue (biomarkerOf stn k) + effect_value (effects c ! n)
                 \<and> newValue en = currentValue (biomarkerOf stn' k)
                 \<and> criticalRange (biomarkerOf stn' k) = criticalRange (biomarkerOf stn k)
                 \<and> (isCritical (biomarkerOf stn' k) \<longleftrightarrow>
                       currentValue (biomarkerOf stn' k) < fst (criticalRange (biomarkerOf stn' k))
                     \<or> currentValue (biomarkerOf stn' k) > snd (criticalRange (biomarkerOf stn' k)))"
      unfolding outsideCritical_def .
  qed
  show ?thesis
    by (rule exI[of _ s'], rule exI[of _ h]) (intro conjI A B C D)
qed

text \<open>
  A session whose glucose flag is stale (set at 90), and a card with -40 on glucose
  and -1 on pH: glucose lands on the lower critical bound 50 and the flag is cleared,
  pH leaves its critical range and the flag is set, temperature is untouched.
\<close>

lemma edgeCard_facts:
  "validCard edgeCard"
  "targeted (effects edgeCard) GLUCOSE"
  "targeted (effects edgeCard) PH"
  "\<not> targeted (effects edgeCard) TEMPERATURE"
  "deltaSum (effects edgeCard) GLUCOSE = - 40"
  "deltaSum (effects edgeCard) PH = - 1"
  by (simp_all add: validCard_def targeted_def deltaSum_def edgeCard_def mkCard_def mkEffect_def
      systemKey_def)

lemma staleState_facts:
  "isCritical (glucose staleState)"
  "currentValue (glucose staleState) = 90"
  "criticalRange (glucose staleState) = (50, 140)"
  "currentValue (ph staleState) = 74 / 10"
  "criticalRange (ph staleState) = (72 / 10, 76 / 10)"
  "temperature staleState = temperature0"
  by (simp_all add: staleState_def state0_def glucose0_def ph0_def)

theorem C7_witness:
  "validCard edgeCard \<and> isCritical (glucose staleState) \<and>
   targeted (effects edgeCard) GLUCOSE \<and> targeted (effects edgeCard) PH \<and>
   \<not> targeted (effects edgeCard) TEMPERATURE \<and>
   (\<exists>s' h. processTurn clock0 (mkSession staleState 1 [edgeCard] [] []) edgeCard = Inr (s', h)
      \<and> currentValue (glucose (currentState s')) = 50
      \<and> criticalRange (glucose (currentState s')) = (50, 140)
      \<and> \<not> isCritical (glucose (currentState s'))
      \<and> currentValue (ph (currentState s')) = 64 / 10
      \<and> isCritical (ph (currentState s'))
      \<and> temperature (currentState s') = temperature0)"
proof -
  let ?s = "mkSession staleState 1 [edgeCard] [] []"
  have cs: "currentState ?s = staleState"
    by (simp add: mkSession_def)
  from C7_flag_recomputed_in_processTurn[OF edgeCard_facts(1), of clock0 ?s]
  obtain s' h where
    p: "processTurn clock0 ?s edgeCard = Inr (s', h)" and
    C: "\<forall>k. currentValue (biomarkerOf (currentState s') k)
                     = currentValue (biomarkerOf (currentState ?s) k) + deltaSum (effects edgeCard) k
                 \<and> criticalRange (biomarkerOf (currentState s') k)
                     = criticalRange (biomarkerOf (currentState ?s) k)
                 \<and> (\<not> targeted (effects edgeCard) k
                      \<longrightarrow> biomarkerOf (currentState s') k = biomarkerOf (currentState ?s) k)
                 \<and> (targeted (effects edgeCard) k \<longrightarrow>
                      (isCritical (biomarkerOf (currentState s') k) \<longleftrightarrow>
                         currentValue (biomarkerOf (currentState s') k)
                           < fst (criticalRange (biomarkerOf (currentState s') k))
                       \<or> currentValue (biomarkerOf (currentState s') k)
                           > snd (criticalRange (biomarkerOf (currentState s') k))))"
    by blast
  from C[rule_format, of GLUCOSE] edgeCard_facts staleState_facts
  have g: "currentValue (glucose (currentState s')) = 50
         \<and> criticalRange (glucose (currentState s')) = (50, 140)
         \<and> \<not> isCritical (glucose (currentState s'))"
    by (simp add: cs)
  from C[rule_format, of PH] edgeCard_facts staleState_facts
  have q: "currentValue (ph (currentState s')) = 64 / 10 \<and> isCritical (ph (currentState s'))"
    by (simp add: cs)
  from C[rule_format, of TEMPERATURE] edgeCard_facts staleState_facts
  have t: "temperature (currentState s') = temperature0"
    by (simp add: cs)
  from p g q t edgeCard_facts(1-4) staleState_facts(1) show ?thesis by blast
qed

section \<open>Drawing\<close>

text \<open>
  Claim C5. With an empty deck and a non-empty discard pile, \<^verbatim>\<open>drawCard\<close> moves the
  discard pile into the deck in its own order, empties the discard pile, takes the
  first card of the new deck and appends it to the hand: the new deck is the old
  discard pile without its first card, one card shorter.
\<close>

theorem C5_reshuffle_then_draw:
  assumes "deck s = []" and "discardPile s = x # xs"
  shows "drawCard s = (s\<lparr>deck := xs, discardPile := [], hand := hand s @ [x]\<rparr>, Some x)
         \<and> deck (fst (drawCard s)) = tl (discardPile s)
         \<and> discardPile (fst (drawCard s)) = []
         \<and> hand (fst (drawCard s)) = hand s @ [hd (discardPile s)]
         \<and> length (deck (fst (drawCard s))) = length (discardPile s) - 1"
  using assms by (simp add: drawCard_def Let_def)

text \<open>Scenario E: deck empty, discard pile X, Y.\<close>

theorem C5_witness:
  "deck (mkSession state0 3 [] [] [cardX, cardY]) = [] \<and>
   discardPile (mkSession state0 3 [] [] [cardX, cardY]) = cardX # [cardY] \<and>
   drawCard (mkSession state0 3 [] [] [cardX, cardY])
     = (mkSession state0 3 [cardX] [cardY] [], Some cardX)"
proof -
  have d: "deck (mkSession state0 3 [] [] [cardX, cardY]) = []"
    and p: "discardPile (mkSession state0 3 [] [] [cardX, cardY]) = cardX # [cardY]"
    by (simp_all add: mkSession_def)
  from C5_reshuffle_then_draw[OF d p] d p show ?thesis
    by (simp add: mkSession_def)
qed

text \<open>
  Claim C9. With deck and discard pile both empty, \<^verbatim>\<open>drawCard\<close> returns no card and
  a session whose every field has the input's value; the function has no failing
  branch.
\<close>

theorem C9_nothing_to_draw:
  assumes "deck s = []" and "discardPile s = []"
  shows "drawCard s = (s, None)"
  using assms by (simp add: drawCard_def Let_def)

text \<open>A session with one card in hand and nothing to draw.\<close>

theorem C9_witness:
  "deck (mkSession state0 3 [cardX] [] []) = [] \<and>
   discardPile (mkSession state0 3 [cardX] [] []) = [] \<and>
   drawCard (mkSession state0 3 [cardX] [] []) = (mkSession state0 3 [cardX] [] [], None)"
proof -
  have d: "deck (mkSession state0 3 [cardX] [] []) = []"
    and p: "discardPile (mkSession state0 3 [cardX] [] []) = []"
    by (simp_all add: mkSession_def)
  from C9_nothing_to_draw[OF d p] d p show ?thesis by simp
qed

section \<open>Score\<close>

lemma length_critical_systems:
  "length (filter isCritical (systems st)) = criticalCount st"
  by (simp add: systems_def criticalCount_def)

lemma length_stable_systems:
  "length (filter (\<lambda>s. currentValue s \<ge> fst (normalRange s) \<and>
                   currentValue s \<le> snd (normalRange s)) (systems st)) = stableCount st"
  by (simp add: systems_def stableCount_def withinNormal_def)

text \<open>
  Claim C6. \<^verbatim>\<open>getScore\<close> is the maximum of 0 and
  1000 - 10 * turnCount - 50 * criticalCount + 100 * stableCount, with the counts
  taken over the three biomarkers; equal sessions get equal scores; ten turns, one
  critical and two stable biomarkers give 1050.
\<close>

theorem C6_score_formula:
  "getScore s =
     max 0 (1000 - 10 * turnCount s - 50 * int (criticalCount (currentState s))
              + 100 * int (stableCount (currentState s)))
   \<and> (\<forall>s'. s' = s \<longrightarrow> getScore s' = getScore s)
   \<and> (turnCount s = 10 \<and> criticalCount (currentState s) = 1 \<and> stableCount (currentState s) = 2
        \<longrightarrow> getScore s = 1050)"
proof -
  have 1: "getScore s =
     max 0 (1000 - 10 * turnCount s - 50 * int (criticalCount (currentState s))
              + 100 * int (stableCount (currentState s)))"
    unfolding getScore_def Let_def length_critical_systems length_stable_systems
    by (simp only: mult.commute)
  have 2: "\<forall>s'. s' = s \<longrightarrow> getScore s' = getScore s"
    by simp
  have 3: "getScore s = 1050"
    if "turnCount s = 10 \<and> criticalCount (currentState s) = 1 \<and> stableCount (currentState s) = 2"
  proof -
    from that have "turnCount s = 10" "int (criticalCount (currentState s)) = 1"
      "int (stableCount (currentState s)) = 2"
      by simp_all
    then show ?thesis
      by (simp only: 1)
  qed
  from 1 2 3 show ?thesis by blast
qed

text \<open>Scenario F: glucose critical at 40, pH and temperature stable, ten turns.\<close>

theorem C6_witness:
  "turnCount (mkSession (state0\<lparr>glucose := glucose0\<lparr>currentValue := 40, isCritical := True\<rparr>\<rparr>) 10 [] [] []) = 10
   \<and> criticalCount (state0\<lparr>glucose := glucose0\<lparr>currentValue := 40, isCritical := True\<rparr>\<rparr>) = 1
   \<and> stableCount (state0\<lparr>glucose := glucose0\<lparr>currentValue := 40, isCritical := True\<rparr>\<rparr>) = 2
   \<and> getScore (mkSession (state0\<lparr>glucose := glucose0\<lparr>currentValue := 40, isCritical := True\<rparr>\<rparr>) 10 [] [] []) = 1050"
  using C6_score_formula[of "mkSession (state0\<lparr>glucose := glucose0\<lparr>currentValue := 40, isCritical := True\<rparr>\<rparr>) 10 [] [] []"]
  by (simp add: example_defs criticalCount_def stableCount_def withinNormal_def)

section \<open>The card economy\<close>

lemma length_filter_split:
  "length (filter (\<lambda>x. \<not> P x) xs) + length (filter P xs) = length xs"
  by (induction xs) auto

lemma mset_filter_id:
  assumes "filter (\<lambda>x. card_id x = card_id c) xs = [c]"
  shows "mset (filter (\<lambda>x. card_id x \<noteq> card_id c) xs) + {#c#} = mset xs"
proof -
  have "mset xs = mset (filter (\<lambda>x. card_id x = card_id c) xs)
                  + mset (filter (\<lambda>x. \<not> card_id x = card_id c) xs)"
    by (simp only: mset_filter multiset_partition[symmetric])
  with assms show ?thesis by simp
qed

lemma played_in_hand:
  assumes "filter (\<lambda>x. card_id x = card_id c) xs = [c]"
  shows "c \<in> set xs"
proof -
  have "c \<in> set (filter (\<lambda>x. card_id x = card_id c) xs)"
    unfolding assms by simp
  then show ?thesis by simp
qed

lemma drawCard_allCards: "allCards (fst (drawCard s)) = allCards s"
  by (cases "deck s"; cases "discardPile s") (simp_all add: drawCard_def allCards_def Let_def)

lemma drawCard_disjoint: "pilesDisjoint s \<Longrightarrow> pilesDisjoint (fst (drawCard s))"
  by (cases "deck s"; cases "discardPile s")
     (auto simp add: drawCard_def pilesDisjoint_def Let_def)

text \<open>
  Claim C10. The hand is filtered by id: every hand card carrying the played card's
  id is removed, one copy of the played card is appended to the discard pile and the
  deck is untouched, so with \<open>k\<close> hand cards of that id the total over the three
  piles changes by \<open>1 - k\<close>; with two or more it strictly decreases, by \<open>k - 1\<close>.
\<close>

theorem C10_duplicates_removed:
  assumes "validCard c"
  shows "\<exists>s' h. processTurn clk s c = Inr (s', h)
           \<and> hand s' = filter (\<lambda>x. card_id x \<noteq> card_id c) (hand s)
           \<and> (\<forall>x \<in> set (hand s'). card_id x \<noteq> card_id c)
           \<and> deck s' = deck s
           \<and> discardPile s' = discardPile s @ [c]
           \<and> totalCards s' + length (filter (\<lambda>x. card_id x = card_id c) (hand s))
               = totalCards s + 1
           \<and> (2 \<le> length (filter (\<lambda>x. card_id x = card_id c) (hand s))
               \<longrightarrow> totalCards s' < totalCards s
                 \<and> totalCards s - totalCards s'
                     = length (filter (\<lambda>x. card_id x = card_id c) (hand s)) - 1)"
proof -
  obtain st' h where
    2: "processTurn clk s c =
       Inr (s\<lparr>currentState := st',
              hand := filter (\<lambda>card. card_id card \<noteq> card_id c) (hand s),
              discardPile := discardPile s @ [c],
              status := checkGameEnd (s\<lparr>currentState := st'\<rparr>),
              turnCount := turnCount s + 1\<rparr>, h)"
    using processTurn_returns[OF assms] by blast
  have 3: "length (filter (\<lambda>x. card_id x \<noteq> card_id c) (hand s))
            + length (filter (\<lambda>x. card_id x = card_id c) (hand s)) = length (hand s)"
    using length_filter_split[of "\<lambda>x. card_id x = card_id c" "hand s"] by simp
  show ?thesis
    unfolding 2 using 3 by (auto simp: totalCards_def)
qed

text \<open>A hand with three cards of id x, one of them played.\<close>

theorem C10_witness:
  "validCard cardX \<and>
   2 \<le> length (filter (\<lambda>x. card_id x = card_id cardX) [cardX, cardY, cardX2, cardX]) \<and>
   (\<exists>s' h. processTurn clock0 (mkSession state0 3 [cardX, cardY, cardX2, cardX] [] []) cardX = Inr (s', h)
      \<and> hand s' = [cardY] \<and> discardPile s' = [cardX]
      \<and> totalCards (mkSession state0 3 [cardX, cardY, cardX2, cardX] [] []) = 4
      \<and> totalCards s' = 2)"
proof -
  have v: "validCard cardX"
    by (simp add: validCard_def cardX_def mkCard_def)
  from C10_duplicates_removed[OF v, of clock0 "mkSession state0 3 [cardX, cardY, cardX2, cardX] [] []"]
  obtain s' h where
    p: "processTurn clock0 (mkSession state0 3 [cardX, cardY, cardX2, cardX] [] []) cardX = Inr (s', h)"
    and hd: "hand s' = filter (\<lambda>x. card_id x \<noteq> card_id cardX)
               (hand (mkSession state0 3 [cardX, cardY, cardX2, cardX] [] []))"
    and dp: "discardPile s' = discardPile (mkSession state0 3 [cardX, cardY, cardX2, cardX] [] []) @ [cardX]"
    and dk: "deck s' = deck (mkSession state0 3 [cardX, cardY, cardX2, cardX] [] [])"
    by blast
  have 1: "hand s' = [cardY]"
    unfolding hd by (simp add: mkSession_def cardX_def cardY_def cardX2_def mkCard_def)
  have 2: "discardPile s' = [cardX]"
    unfolding dp by (simp add: mkSession_def)
  have 3: "totalCards s' = 2"
    unfolding totalCards_def 1 2 dk by (simp add: mkSession_def)
  have 4: "totalCards (mkSession state0 3 [cardX, cardY, cardX2, cardX] [] []) = 4"
    by (simp add: totalCards_def mkSession_def)
  have 5: "2 \<le> length (filter (\<lambda>x. card_id x = card_id cardX) [cardX, cardY, cardX2, cardX])"
    by (simp add: cardX_def cardY_def cardX2_def mkCard_def)
  from v p 1 2 3 4 5 show ?thesis by blast
qed

text \<open>
  Claim C8, as the code has it. \<^verbatim>\<open>drawCard\<close> always keeps the multiset of cards
  over the three piles, and keeps the piles free of repeated cards when they were.
  \<^verbatim>\<open>processTurn\<close> does so when exactly one hand card carries the played card's id
  and that card is the played card.
\<close>

theorem C8_cards_conserved_when_played_from_hand:
  "allCards (fst (drawCard s)) = allCards s
   \<and> (pilesDisjoint s \<longrightarrow> pilesDisjoint (fst (drawCard s)))
   \<and> (validCard c \<and> filter (\<lambda>x. card_id x = card_id c) (hand s) = [c]
        \<longrightarrow> (\<exists>s' h. processTurn clk s c = Inr (s', h) \<and> allCards s' = allCards s
                  \<and> (pilesDisjoint s \<longrightarrow> pilesDisjoint s')))"
proof -
  have "\<exists>s' h. processTurn clk s c = Inr (s', h) \<and> allCards s' = allCards s
                  \<and> (pilesDisjoint s \<longrightarrow> pilesDisjoint s')"
    if v: "validCard c" and f: "filter (\<lambda>x. card_id x = card_id c) (hand s) = [c]"
  proof -
    obtain st' h where
      2: "processTurn clk s c =
         Inr (s\<lparr>currentState := st',
                hand := filter (\<lambda>card. card_id card \<noteq> card_id c) (hand s),
                discardPile := discardPile s @ [c],
                status := checkGameEnd (s\<lparr>currentState := st'\<rparr>),
                turnCount := turnCount s + 1\<rparr>, h)"
      using processTurn_returns[OF v] by blast
    have m: "mset (filter (\<lambda>x. card_id x \<noteq> card_id c) (hand s)) + {#c#} = mset (hand s)"
      using f by (rule mset_filter_id)
    have i: "c \<in> set (hand s)"
      using f by (rule played_in_hand)
    show ?thesis
      unfolding 2 using m i
      by (auto simp: allCards_def pilesDisjoint_def)
  qed
  then show ?thesis
    using drawCard_allCards[of s] drawCard_disjoint[of s] by blast
qed

text \<open>Playing the insulin card from a hand that holds it once.\<close>

theorem C8_witness:
  "validCard insulinCard \<and>
   filter (\<lambda>x. card_id x = card_id insulinCard)
     (hand (mkSession state0 3 [cardX, insulinCard] [cardY] [])) = [insulinCard] \<and>
   pilesDisjoint (mkSession state0 3 [cardX, insulinCard] [cardY] []) \<and>
   (\<exists>s' h. processTurn clock0 (mkSession state0 3 [cardX, insulinCard] [cardY] []) insulinCard
              = Inr (s', h)
      \<and> allCards s' = {#cardX, insulinCard, cardY#} \<and> pilesDisjoint s')
   \<and> allCards (fst (drawCard (mkSession state0 3 [cardX, insulinCard] [cardY] [])))
       = {#cardX, insulinCard, cardY#}
   \<and> pilesDisjoint (fst (drawCard (mkSession state0 3 [cardX, insulinCard] [cardY] [])))"
proof -
  have v: "validCard insulinCard"
    by (simp add: validCard_def insulinCard_def mkCard_def mkEffect_def systemKey_def)
  have f: "filter (\<lambda>x. card_id x = card_id insulinCard)
     (hand (mkSession state0 3 [cardX, insulinCard] [cardY] [])) = [insulinCard]"
    by (simp add: mkSession_def insulinCard_def cardX_def mkCard_def)
  have d: "pilesDisjoint (mkSession state0 3 [cardX, insulinCard] [cardY] [])"
    by (simp add: pilesDisjoint_def mkSession_def insulinCard_def cardX_def cardY_def mkCard_def)
  have a: "allCards (mkSession state0 3 [cardX, insulinCard] [cardY] [])
             = {#cardX, insulinCard, cardY#}"
    by (simp add: allCards_def mkSession_def)
  from C8_cards_conserved_when_played_from_hand
         [of "mkSession state0 3 [cardX, insulinCard] [cardY] []" insulinCard clock0]
       v f d a
  show ?thesis by auto
qed

text \<open>
  Playing a card that is not in the hand (here it lies in the deck): the hand is
  left alone, the card is appended to the discard pile all the same, so the session
  has one card more than before and the same card in two piles.
\<close>

theorem C8_counterexample:
  "pilesDisjoint (mkSession state0 3 [cardY] [cardX] []) \<and>
   processTurn clock0 (mkSession state0 3 [cardY] [cardX] []) cardX
     = Inr (mkSession state0 4 [cardY] [cardX] [cardX], []) \<and>
   allCards (mkSession state0 3 [cardY] [cardX] []) = {#cardY, cardX#} \<and>
   allCards (mkSession state0 4 [cardY] [cardX] [cardX]) = {#cardY, cardX, cardX#} \<and>
   allCards (mkSession state0 4 [cardY] [cardX] [cardX])
     \<noteq> allCards (mkSession state0 3 [cardY] [cardX] []) \<and>
   \<not> pilesDisjoint (mkSession state0 4 [cardY] [cardX] [cardX])"
  by (simp add: pilesDisjoint_def allCards_def example_defs cardX_def cardY_def
      processTurn_def checkGameEnd_def systems_def Let_def)

section \<open>The resolver on the object store: what happens to the argument\<close>

lemma assignSession_Some:
  "sessionObjs h a = Some so \<Longrightarrow>
   assignSession h a f = h\<lparr>sessionObjs := (sessionObjs h)(a \<mapsto> f so)\<rparr>"
  by (simp add: assignSession_def)

lemma applyEffectsObj_Inr:
  assumes "sessionObjs h n = Some so" and "stateObjs h (currentState so) = Some st"
    and "applyEffects clk i c st hist es = Inr (st', hs)"
  shows "applyEffectsObj clk i c h n hist es =
           (h\<lparr>stateObjs := (stateObjs h)(currentState so \<mapsto> st')\<rparr>, Inr hs)"
  using assms
proof (induction es arbitrary: h st hist i)
  case Nil
  then have "(stateObjs h)(currentState so \<mapsto> st') = stateObjs h"
    by (auto simp: map_upd_triv)
  with Nil show ?case by simp
next
  case (Cons e es)
  from Cons.prems(3) obtain st1 en where
    1: "applyEffect clk i c st e = Inr (st1, en)" and
    2: "applyEffects clk (Suc i) c st1 (hist @ [en]) es = Inr (st', hs)"
    by (auto split: sum.splits)
  let ?h1 = "h\<lparr>stateObjs := (stateObjs h)(currentState so \<mapsto> st1)\<rparr>"
  have 3: "applyEffectObj clk i c h n e = (?h1, Inr en)"
    using Cons.prems(1,2) 1 by (simp add: applyEffectObj_def)
  have 4: "sessionObjs ?h1 n = Some so" "stateObjs ?h1 (currentState so) = Some st1"
    using Cons.prems(1) by simp_all
  have 5: "?h1\<lparr>stateObjs := (stateObjs ?h1)(currentState so \<mapsto> st')\<rparr>
           = h\<lparr>stateObjs := (stateObjs h)(currentState so \<mapsto> st')\<rparr>"
    by simp
  have "applyEffectsObj clk i c h n hist (e # es)
          = applyEffectsObj clk (Suc i) c ?h1 n (hist @ [en]) es"
    by (simp add: 3)
  also have "\<dots> = (?h1\<lparr>stateObjs := (stateObjs ?h1)(currentState so \<mapsto> st')\<rparr>, Inr hs)"
    by (rule Cons.IH[OF 4 2])
  finally show ?case
    by (simp only: 5)
qed

lemma applyEffectsObj_Inl:
  assumes "sessionObjs h n = Some so" and "stateObjs h (currentState so) = Some st"
    and "applyEffects clk i c st hist es = Inl e"
  shows "snd (applyEffectsObj clk i c h n hist es) = Inl e"
  using assms
proof (induction es arbitrary: h st hist i)
  case Nil
  then show ?case by simp
next
  case (Cons x es)
  show ?case
  proof (cases "applyEffect clk i c st x")
    case (Inl e')
    with Cons.prems show ?thesis
      by (simp add: applyEffectObj_def)
  next
    case (Inr r)
    then obtain st1 en where 1: "applyEffect clk i c st x = Inr (st1, en)"
      by (cases r) auto
    with Cons.prems(3) have 2: "applyEffects clk (Suc i) c st1 (hist @ [en]) es = Inl e"
      by simp
    let ?h1 = "h\<lparr>stateObjs := (stateObjs h)(currentState so \<mapsto> st1)\<rparr>"
    have 3: "applyEffectObj clk i c h n x = (?h1, Inr en)"
      using Cons.prems(1,2) 1 by (simp add: applyEffectObj_def)
    have 4: "sessionObjs ?h1 n = Some so" "stateObjs ?h1 (currentState so) = Some st1"
      using Cons.prems(1) by simp_all
    from Cons.IH[OF 4 2] show ?thesis
      by (simp add: 3)
  qed
qed

text \<open>The store after a successful turn.\<close>

lemma processTurnObj_Inr:
  assumes so: "sessionObjs h a = Some so" and st: "stateObjs h (currentState so) = Some st"
    and ef: "applyEffects clk 0 c st [] (effects c) = Inr (st', hs)"
  shows "processTurnObj clk h a c =
           (h\<lparr>sessionObjs := (sessionObjs h)(nextAddr h \<mapsto>
                  so\<lparr>hand := filter (\<lambda>card. card_id card \<noteq> card_id c) (hand so),
                     discardPile := discardPile so @ [c],
                     status := checkGameEnd (withState so st'),
                     turnCount := turnCount so + 1\<rparr>),
               stateObjs := (stateObjs h)(currentState so \<mapsto> st'),
               nextAddr := Suc (nextAddr h)\<rparr>,
            Inr (nextAddr h, hs))"
proof -
  let ?n = "nextAddr h"
  let ?h1 = "h\<lparr>sessionObjs := (sessionObjs h)(?n \<mapsto> so), nextAddr := Suc ?n\<rparr>"
  have 1: "sessionObjs ?h1 ?n = Some so" "stateObjs ?h1 (currentState so) = Some st"
    using st by simp_all
  have 2: "applyEffectsObj clk 0 c ?h1 ?n [] (effects c) =
             (?h1\<lparr>stateObjs := (stateObjs ?h1)(currentState so \<mapsto> st')\<rparr>, Inr hs)"
    by (rule applyEffectsObj_Inr[OF 1 ef])
  have 3: "checkGameEnd (withState (so\<lparr>hand := x, discardPile := y\<rparr>) st')
             = checkGameEnd (withState so st')" for x y
    by (simp add: checkGameEnd_def withState_def Let_def)
  show ?thesis
    unfolding processTurnObj_def
    by (simp add: so spreadSession_def 2 assignSession_def checkGameEndObj_def readSession_def 3
        Let_def)
qed

lemma withState_processTurn:
  assumes "applyEffects clk 0 c st [] (effects c) = Inr (st', hs)"
  shows "processTurn clk (withState so st) c =
           Inr (withState (so\<lparr>hand := filter (\<lambda>card. card_id card \<noteq> card_id c) (hand so),
                     discardPile := discardPile so @ [c],
                     status := checkGameEnd (withState so st'),
                     turnCount := turnCount so + 1\<rparr>) st', hs)"
proof -
  have "applyEffects clk 0 c (currentState (withState so st)) [] (effects c) = Inr (st', hs)"
    using assms by (simp add: withState_def)
  from processTurn_Inr[OF this] show ?thesis
    by (simp add: withState_def checkGameEnd_def)
qed

text \<open>
  The functional reading is what a reader of the returned object sees: on a store
  that holds the session and its state, a turn that succeeds functionally succeeds
  on the store, returns a fresh address, and the session read there is the
  functional result.
\<close>

lemma processTurnObj_refines:
  assumes "readSession h a = Some s" and "processTurn clk s c = Inr (s', hs)"
  shows "\<exists>h'. processTurnObj clk h a c = (h', Inr (nextAddr h, hs))
           \<and> readSession h' (nextAddr h) = Some s'"
proof -
  from assms(1) obtain so st where
    so: "sessionObjs h a = Some so" and st: "stateObjs h (currentState so) = Some st"
    and s: "s = withState so st"
    by (auto simp: readSession_def split: option.splits)
  from assms(2) obtain st' where
    ef: "applyEffects clk 0 c st [] (effects c) = Inr (st', hs)"
    by (auto simp: processTurn_def s withState_def split: sum.splits)
  from withState_processTurn[OF ef, of so] assms(2)
  have s': "s' = withState (so\<lparr>hand := filter (\<lambda>card. card_id card \<noteq> card_id c) (hand so),
                     discardPile := discardPile so @ [c],
                     status := checkGameEnd (withState so st'),
                     turnCount := turnCount so + 1\<rparr>) st'"
    by (simp add: s)
  show ?thesis
    unfolding processTurnObj_Inr[OF so st ef] s'
    by (simp add: readSession_def)
qed

lemma processTurnObj_refines_error:
  assumes "readSession h a = Some s" and "processTurn clk s c = Inl e"
  shows "snd (processTurnObj clk h a c) = Inl e"
proof -
  from assms(1) obtain so st where
    so: "sessionObjs h a = Some so" and st: "stateObjs h (currentState so) = Some st"
    and s: "s = withState so st"
    by (auto simp: readSession_def split: option.splits)
  from assms(2) have
    ef: "applyEffects clk 0 c st [] (effects c) = Inl e"
    by (auto simp: processTurn_def s withState_def Let_def split: sum.splits)
  let ?n = "nextAddr h"
  let ?h1 = "h\<lparr>sessionObjs := (sessionObjs h)(?n \<mapsto> so), nextAddr := Suc ?n\<rparr>"
  have 1: "sessionObjs ?h1 ?n = Some so" "stateObjs ?h1 (currentState so) = Some st"
    using st by simp_all
  from applyEffectsObj_Inl[OF 1 ef]
  show ?thesis
    unfolding processTurnObj_def
    by (auto simp add: so spreadSession_def split: prod.splits sum.splits)
qed

text \<open>
  What the call does to its argument: the session object keeps its fields, but the
  state object it refers to is the one the new session refers to, and holds the
  biomarkers after the card's effects.
\<close>

lemma processTurnObj_argument:
  assumes "readSession h a = Some s" and "a < nextAddr h"
    and "processTurn clk s c = Inr (s', hs)"
  shows "sessionObjs (fst (processTurnObj clk h a c)) a = sessionObjs h a
       \<and> map_option currentState (sessionObjs (fst (processTurnObj clk h a c)) (nextAddr h))
           = map_option currentState (sessionObjs h a)
       \<and> map_option currentState (readSession (fst (processTurnObj clk h a c)) a)
           = Some (currentState s')"
proof -
  from assms(1) obtain so st where
    so: "sessionObjs h a = Some so" and st: "stateObjs h (currentState so) = Some st"
    and s: "s = withState so st"
    by (auto simp: readSession_def split: option.splits)
  from assms(3) obtain st' where
    ef: "applyEffects clk 0 c st [] (effects c) = Inr (st', hs)"
    by (auto simp: processTurn_def s withState_def split: sum.splits)
  from withState_processTurn[OF ef, of so] assms(3)
  have s': "currentState s' = st'"
    by (auto simp add: s withState_def)
  show ?thesis
    unfolding processTurnObj_Inr[OF so st ef] s'
    using assms(2) so by (simp add: readSession_def withState_def)
qed

lemma drawCardObj_refines:
  assumes "readSession h a = Some s"
  shows "\<exists>h'. drawCardObj h a = (h', Inr (nextAddr h, snd (drawCard s)))
           \<and> readSession h' (nextAddr h) = Some (fst (drawCard s))
           \<and> stateObjs h' = stateObjs h
           \<and> (a < nextAddr h \<longrightarrow> sessionObjs h' a = sessionObjs h a)"
proof -
  from assms(1) obtain so st where
    so: "sessionObjs h a = Some so" and st: "stateObjs h (currentState so) = Some st"
    and s: "s = withState so st"
    by (auto simp: readSession_def split: option.splits)
  show ?thesis
    by (cases "deck so"; cases "discardPile so")
       (simp_all add: drawCardObj_def drawCard_def so st s spreadSession_def assignSession_def
          readSession_def withState_def Let_def)
qed

text \<open>
  Claim C2 on the code, at the session and card of the engine's own test (glucose
  90, one effect of -10 on glucose). Before the call the session object at address 0
  refers to the state object at address 1, whose glucose reads 90. The call returns
  a new session object (address 2), but that object refers to the same state object
  1, and the glucose of that state object, hence of the input session, now reads 80.
\<close>

theorem C2_input_state_overwritten:
  "map_option currentState (sessionObjs heap0 0) = Some 1 \<and>
   map_option (currentValue \<circ> glucose) (stateObjs heap0 1) = Some 90 \<and>
   map_option (currentValue \<circ> glucose \<circ> currentState) (readSession heap0 0) = Some 90 \<and>
   map_sum id fst (snd (processTurnObj clock0 heap0 0 insulinCard)) = Inr 2 \<and>
   map_option currentState (sessionObjs (fst (processTurnObj clock0 heap0 0 insulinCard)) 2)
     = Some 1 \<and>
   map_option (currentValue \<circ> glucose) (stateObjs (fst (processTurnObj clock0 heap0 0 insulinCard)) 1)
     = Some 80 \<and>
   map_option (currentValue \<circ> glucose \<circ> currentState)
     (readSession (fst (processTurnObj clock0 heap0 0 insulinCard)) 0) = Some 80"
proof -
  have so: "sessionObjs heap0 0 = Some (mkSession 1 1 [insulinCard] [] [])"
    by (simp add: heap0_def)
  have st: "stateObjs heap0 (currentState (mkSession 1 1 [insulinCard] [] [])) = Some state0"
    by (simp add: heap0_def mkSession_def)
  have ef: "applyEffects clock0 0 insulinCard state0 [] (effects insulinCard) =
     Inr (state0\<lparr>glucose := glucose0\<lparr>currentValue := 80, isCritical := False,
            trend := decreasing, lastUpdate := 1000\<rparr>\<rparr>,
          [\<lparr>timestamp = 1001, history_system = GLUCOSE, oldValue = 90, newValue = 80,
            change = - 10, reason = ''Card played: Test Card''\<rparr>])"
    by (simp add: insulinCard_def example_defs applyEffect_def systemKey_def Let_def
        isCriticalAt_def calculateTrend_def)
  show ?thesis
    unfolding processTurnObj_Inr[OF so st ef]
    by (simp add: heap0_def readSession_def mkSession_def withState_def state0_def glucose0_def)
qed

end
